theory Spec2Isabelle
  imports Main
begin

section \<open>The script hash\_integer.py\<close>

text \<open>
  The repository's one source file is a command-line script:
  \<^verbatim>\<open>
  import sys
  from aleo_python import hash_int

  def hash_integer(integer):
      return hash_int(integer)

  if __name__ == "__main__":
      if len(sys.argv) > 1:
          try:
              input_integer = int(sys.argv[1])
              hashed_integer = hash_integer(input_integer)
              print(f"The hash of {input_integer} is {hashed_integer}.")
          except ValueError:
              print("Invalid input. Please provide an integer.")
      else:
          print("Please provide an integer as a command line argument.")
  \<close>
  The function \<open>hash_int\<close> is imported from a module that is not part of the source, so it
  is a parameter of the model; the import itself is taken to succeed. Everything else is
  translated below.
\<close>

subsection \<open>Exceptions and the imported primitive\<close>

text \<open>
  The only thing the script ever asks of an exception is whether \<open>except ValueError\<close>
  matches it. \<open>ValueError\<close> stands for an instance of that class or of one of its
  subclasses; \<open>OtherError c\<close> for an instance of any class \<open>c\<close> outside it.
\<close>

datatype exn = ValueError | OtherError string

text \<open>
  A call of a Python function returns a value or raises, and may change state that
  outlives the call (a call that never returns is outside the model). The imported
  \<open>hash_int\<close> is therefore a function from its argument and the state of its module (of
  an arbitrary type \<open>'w\<close>) to a result and the new state. Its result type \<open>'d\<close> is
  arbitrary too; \<open>format_digest\<close> is what the f-string of line 12 makes of such a value:
  its text, or the exception that formatting it raises (for one, \<open>ValueError\<close> on an
  integer with more digits than the interpreter's limit). The third component of the
  environment is that limit on the number of digits (see \<open>py_int\<close> below).
\<close>

record ('d, 'w) env =
  hash_int :: "int \<Rightarrow> 'w \<Rightarrow> (exn + 'd) \<times> 'w"
  format_digest :: "'d \<Rightarrow> exn + string"
  max_str_digits :: nat

definition hash_integer :: "('d, 'w) env \<Rightarrow> int \<Rightarrow> 'w \<Rightarrow> (exn + 'd) \<times> 'w" where
  "hash_integer E integer w = hash_int E integer w"

subsection \<open>The built-in conversions\<close>

text \<open>
  Formatting an integer in an f-string gives its decimal digits, most significant
  first, without leading zeros, after a minus sign when it is negative.
\<close>

definition digit_char :: "nat \<Rightarrow> char" where
  "digit_char d = ''0123456789'' ! d"

fun str_nat :: "nat \<Rightarrow> string" where
  "str_nat n = (if n < 10 then [digit_char n] else str_nat (n div 10) @ [digit_char (n mod 10)])"

declare str_nat.simps [simp del]

definition str_int :: "int \<Rightarrow> string" where
  "str_int i = (if i < 0 then CHR ''-'' # str_nat (nat (- i)) else str_nat (nat i))"

text \<open>
  \<open>int(s)\<close> on a string: white space is skipped at both ends, one sign may follow the
  leading white space, and the rest must be decimal digits, where one underscore may
  stand between two digits. Anything else raises \<open>ValueError\<close>, here \<open>None\<close>.
  Characters are the code points below 256. Of these \<open>int\<close> skips the six
  ASCII white-space characters (9 to 13 and 32) and the two Latin-1 ones (133 and 160),
  and reads as digits only \<open>0\<close> to \<open>9\<close>.

  Since Python 3.11 (and the security releases of 3.7 to 3.10) the conversion also raises
  \<open>ValueError\<close> when the string has more digit characters than the interpreter's limit,
  \<open>sys.get_int_max_str_digits()\<close>: 4300 by default, 0 when the limit is switched off. The
  limit is looked at only above 640 digits (the interpreter accepts no limit between 1 and
  639); leading zeros count, underscores and the sign do not. Formatting the integer
  that was read stays within the same limit, since it has no more digits than the string
  it was read from, so \<open>str_int\<close> is total.
\<close>

definition is_space :: "char \<Rightarrow> bool" where
  "is_space c \<longleftrightarrow> (of_char c :: nat) \<in> {9, 10, 11, 12, 13, 32, 133, 160}"

definition is_digit :: "char \<Rightarrow> bool" where
  "is_digit c \<longleftrightarrow> 48 \<le> (of_char c :: nat) \<and> (of_char c :: nat) \<le> 57"

definition digit_val :: "char \<Rightarrow> int" where
  "digit_val c = int (of_char c) - 48"

definition strip :: "string \<Rightarrow> string" where
  "strip s = rev (dropWhile is_space (rev (dropWhile is_space s)))"

text \<open>
  \<open>scan_digits us acc k cs\<close> reads the digits: \<open>us\<close> says that the character before was
  an underscore, \<open>acc\<close> is the value and \<open>k\<close> the number of the digits read so far.
\<close>

fun scan_digits :: "bool \<Rightarrow> int \<Rightarrow> nat \<Rightarrow> string \<Rightarrow> (int \<times> nat) option" where
  "scan_digits us acc k [] = (if us then None else Some (acc, k))"
| "scan_digits us acc k (c # cs) =
     (if is_digit c then scan_digits False (10 * acc + digit_val c) (Suc k) cs
      else if c = CHR ''_'' \<and> \<not> us then scan_digits True acc k cs
      else None)"

definition exceeds_limit :: "nat \<Rightarrow> nat \<Rightarrow> bool" where
  "exceeds_limit lim k \<longleftrightarrow> 640 < k \<and> 0 < lim \<and> lim < k"

definition py_magnitude :: "nat \<Rightarrow> string \<Rightarrow> int option" where
  "py_magnitude lim cs =
     (case cs of
        [] \<Rightarrow> None
      | c # _ \<Rightarrow>
          if c = CHR ''_'' then None
          else (case scan_digits False 0 0 cs of
                  None \<Rightarrow> None
                | Some (v, k) \<Rightarrow> if exceeds_limit lim k then None else Some v))"

definition py_int :: "nat \<Rightarrow> string \<Rightarrow> int option" where
  "py_int lim s =
     (case strip s of
        [] \<Rightarrow> None
      | c # cs \<Rightarrow>
          if c = CHR ''-'' then map_option uminus (py_magnitude lim cs)
          else if c = CHR ''+'' then py_magnitude lim cs
          else py_magnitude lim (c # cs))"

subsection \<open>The script\<close>

text \<open>
  Standard output is the list of the lines printed. A run ends normally or with an
  exception that nothing caught, which ends the process (for an ordinary exception with
  a traceback on standard error and status 1).
\<close>

datatype exit = Normal | Uncaught exn

text \<open>
  The body of the \<open>try\<close> statement: the lines it prints, or the exception it raises. The
  f-string is evaluated inside the \<open>try\<close>, so an exception from formatting the digest
  is raised there too, and then nothing is printed by line 12.
\<close>

definition try_body :: "('d, 'w) env \<Rightarrow> string \<Rightarrow> 'w \<Rightarrow> (exn + string list) \<times> 'w" where
  "try_body E arg w =
     (case py_int (max_str_digits E) arg of
        None \<Rightarrow> (Inl ValueError, w)
      | Some input_integer \<Rightarrow>
          (case hash_integer E input_integer w of
             (Inl e, w') \<Rightarrow> (Inl e, w')
           | (Inr hashed_integer, w') \<Rightarrow>
               (case format_digest E hashed_integer of
                  Inl e \<Rightarrow> (Inl e, w')
                | Inr shown \<Rightarrow>
                    (Inr [''The hash of '' @ str_int input_integer @ '' is '' @ shown @ ''.''],
                     w'))))"

definition main :: "('d, 'w) env \<Rightarrow> string list \<Rightarrow> 'w \<Rightarrow> (string list \<times> exit) \<times> 'w" where
  "main E argv w =
     (if length argv > 1 then
        (case try_body E (argv ! 1) w of
           (Inr out, w') \<Rightarrow> ((out, Normal), w')
         | (Inl ValueError, w') \<Rightarrow>
             (([''Invalid input. Please provide an integer.''], Normal), w')
         | (Inl (OtherError c), w') \<Rightarrow> (([], Uncaught (OtherError c)), w'))
      else (([''Please provide an integer as a command line argument.''], Normal), w))"

subsection \<open>Notions used to state the properties\<close>

text \<open>The integer that a string of decimal digits denotes, most significant digit first.\<close>

definition decimal :: "string \<Rightarrow> int" where
  "decimal ds = foldl (\<lambda>a c. 10 * a + digit_val c) 0 ds"

text \<open>A call whose result is the same in every state depends on its argument only.\<close>

definition depends_only_on_argument :: "(int \<Rightarrow> 'w \<Rightarrow> 'r \<times> 'w) \<Rightarrow> bool" where
  "depends_only_on_argument f \<longleftrightarrow> (\<forall>n w w'. fst (f n w) = fst (f n w'))"




text \<open>
  An example environment for running the script on concrete command lines. Its primitive
  counts its calls in the state, raises an exception that is not a \<open>ValueError\<close> on a
  negative integer and a \<open>ValueError\<close> from \<open>2 ^ 64\<close> on, and returns an integer otherwise:
  one of fewer than 40 digits, which the f-string formats as \<open>str_int\<close> does.
\<close>

definition example_hash_int :: "int \<Rightarrow> nat \<Rightarrow> (exn + int) \<times> nat" where
  "example_hash_int n w =
     (if n < 0 then Inl (OtherError ''OverflowError'')
      else if 2 ^ 64 \<le> n then Inl ValueError
      else Inr (n * n + 1), Suc w)"

definition example_env :: "(int, nat) env" where
  "example_env =
     \<lparr>hash_int = example_hash_int, format_digest = (\<lambda>d. Inr (str_int d)),
      max_str_digits = 4300\<rparr>"

section \<open>Properties\<close>

subsection \<open>The ways a run ends\<close>

text \<open>
  How a run with an argument ends is decided by the conversion of the argument, by what
  \<open>hash_int\<close> does and by the formatting of the digest; a run without an argument prints
  the hint.
\<close>

lemma main_unparsable:
  "py_int (max_str_digits E) arg = None \<Longrightarrow>
   main E (prog # arg # rest) w = (([''Invalid input. Please provide an integer.''], Normal), w)"
  by (simp add: main_def try_body_def)

lemma main_digest:
  "py_int (max_str_digits E) arg = Some n \<Longrightarrow> hash_int E n w = (Inr d, w') \<Longrightarrow>
   format_digest E d = Inr shown \<Longrightarrow>
   main E (prog # arg # rest) w =
     (([''The hash of '' @ str_int n @ '' is '' @ shown @ ''.''], Normal), w')"
  by (simp add: main_def try_body_def hash_integer_def)

lemma main_format_value_error:
  "py_int (max_str_digits E) arg = Some n \<Longrightarrow> hash_int E n w = (Inr d, w') \<Longrightarrow>
   format_digest E d = Inl ValueError \<Longrightarrow>
   main E (prog # arg # rest) w = (([''Invalid input. Please provide an integer.''], Normal), w')"
  by (simp add: main_def try_body_def hash_integer_def)

lemma main_format_other_error:
  "py_int (max_str_digits E) arg = Some n \<Longrightarrow> hash_int E n w = (Inr d, w') \<Longrightarrow>
   format_digest E d = Inl (OtherError c) \<Longrightarrow>
   main E (prog # arg # rest) w = (([], Uncaught (OtherError c)), w')"
  by (simp add: main_def try_body_def hash_integer_def)

lemma main_value_error:
  "py_int (max_str_digits E) arg = Some n \<Longrightarrow> hash_int E n w = (Inl ValueError, w') \<Longrightarrow>
   main E (prog # arg # rest) w = (([''Invalid input. Please provide an integer.''], Normal), w')"
  by (simp add: main_def try_body_def hash_integer_def)

lemma main_other_error:
  "py_int (max_str_digits E) arg = Some n \<Longrightarrow> hash_int E n w = (Inl (OtherError c), w') \<Longrightarrow>
   main E (prog # arg # rest) w = (([], Uncaught (OtherError c)), w')"
  by (simp add: main_def try_body_def hash_integer_def)

lemma main_no_argument:
  "length argv \<le> 1 \<Longrightarrow>
   main E argv w = (([''Please provide an integer as a command line argument.''], Normal), w)"
  by (simp add: main_def)


subsection \<open>Reading a string of digits\<close>

lemma digit_not_space: "is_digit c \<Longrightarrow> \<not> is_space c"
  by (auto simp: is_digit_def is_space_def)

lemma digit_not_underscore: "is_digit c \<Longrightarrow> c \<noteq> CHR ''_''"
  by (auto simp: is_digit_def)

lemma digit_val_range: "is_digit c \<Longrightarrow> 0 \<le> digit_val c \<and> digit_val c \<le> 9"
  by (auto simp: is_digit_def digit_val_def)

lemma scan_digits_all:
  "\<forall>c\<in>set ds. is_digit c \<Longrightarrow>
   scan_digits False acc k ds = Some (foldl (\<lambda>a c. 10 * a + digit_val c) acc ds, k + length ds)"
  by (induction ds arbitrary: acc k) simp_all

lemma py_magnitude_digits:
  assumes "ds \<noteq> []" and "\<forall>c\<in>set ds. is_digit c"
  shows "py_magnitude lim ds = (if exceeds_limit lim (length ds) then None else Some (decimal ds))"
proof -
  from assms obtain c cs where ds: "ds = c # cs" and c: "is_digit c"
    by (cases ds) auto
  have "scan_digits False 0 0 ds = Some (decimal ds, length ds)"
    using scan_digits_all [OF assms(2), of 0 0] by (simp add: decimal_def)
  with ds digit_not_underscore [OF c] show ?thesis
    by (simp add: py_magnitude_def)
qed

lemma strip_id:
  assumes "s \<noteq> []" and "\<not> is_space (hd s)" and "\<not> is_space (last s)"
  shows "strip s = s"
proof -
  have "dropWhile is_space s = s"
    using assms(1,2) by (cases s) simp_all
  moreover have "dropWhile is_space (rev s) = rev s"
    using assms(1,3) by (cases "rev s") (simp_all add: hd_rev [symmetric])
  ultimately show ?thesis by (simp add: strip_def)
qed

lemma py_int_minus_digits:
  assumes "ds \<noteq> []" and "\<forall>c\<in>set ds. is_digit c"
  shows "py_int lim (CHR ''-'' # ds) =
           (if exceeds_limit lim (length ds) then None else Some (- decimal ds))"
proof -
  have "is_digit (last ds)" using assms by simp
  then have "\<not> is_space (last (CHR ''-'' # ds))"
    using assms(1) by (simp add: digit_not_space)
  moreover have "\<not> is_space (CHR ''-'')" by (simp add: is_space_def)
  ultimately have "strip (CHR ''-'' # ds) = CHR ''-'' # ds"
    by (intro strip_id) simp_all
  then show ?thesis
    by (simp add: py_int_def py_magnitude_digits [OF assms])
qed

lemma foldl_digits_nonneg:
  "\<forall>c\<in>set ds. is_digit c \<Longrightarrow> 0 \<le> acc \<Longrightarrow> 0 \<le> foldl (\<lambda>a c. 10 * a + digit_val c) acc ds"
proof (induction ds arbitrary: acc)
  case Nil
  then show ?case by simp
next
  case (Cons c cs)
  have "0 \<le> digit_val c" using Cons.prems(1) by (simp add: digit_val_range)
  then have "0 \<le> 10 * acc + digit_val c" using Cons.prems(2) by simp
  moreover have "\<forall>c\<in>set cs. is_digit c" using Cons.prems(1) by simp
  ultimately show ?case using Cons.IH by simp
qed

lemma foldl_digits_pos_acc:
  "\<forall>c\<in>set ds. is_digit c \<Longrightarrow> 0 < acc \<Longrightarrow> 0 < foldl (\<lambda>a c. 10 * a + digit_val c) acc ds"
proof (induction ds arbitrary: acc)
  case Nil
  then show ?case by simp
next
  case (Cons c cs)
  have "0 \<le> digit_val c" using Cons.prems(1) by (simp add: digit_val_range)
  then have "0 < 10 * acc + digit_val c" using Cons.prems(2) by simp
  moreover have "\<forall>c\<in>set cs. is_digit c" using Cons.prems(1) by simp
  ultimately show ?case using Cons.IH by simp
qed

lemma digit_val_pos:
  assumes "is_digit c" and "c \<noteq> CHR ''0''"
  shows "0 < digit_val c"
proof -
  have "(of_char c :: nat) \<noteq> of_char CHR ''0''"
    using assms(2) by (simp only: of_char_eq_iff) simp
  then show ?thesis
    using assms(1) by (simp add: is_digit_def digit_val_def)
qed

lemma foldl_digits_pos:
  "\<forall>c\<in>set ds. is_digit c \<Longrightarrow> 0 \<le> acc \<Longrightarrow> \<exists>c\<in>set ds. c \<noteq> CHR ''0'' \<Longrightarrow>
   0 < foldl (\<lambda>a c. 10 * a + digit_val c) acc ds"
proof (induction ds arbitrary: acc)
  case Nil
  then show ?case by simp
next
  case (Cons c cs)
  have cs: "\<forall>c\<in>set cs. is_digit c" and c: "is_digit c"
    using Cons.prems(1) by simp_all
  have nonneg: "0 \<le> 10 * acc + digit_val c"
    using digit_val_range [OF c] Cons.prems(2) by simp
  show ?case
  proof (cases "c = CHR ''0''")
    case True
    then have "\<exists>c\<in>set cs. c \<noteq> CHR ''0''" using Cons.prems(3) by simp
    from Cons.IH [OF cs nonneg this] show ?thesis by simp
  next
    case False
    then have "0 < 10 * acc + digit_val c"
      using digit_val_pos [OF c] Cons.prems(2) by simp
    from foldl_digits_pos_acc [OF cs this] show ?thesis by simp
  qed
qed

lemma decimal_nonneg: "\<forall>c\<in>set ds. is_digit c \<Longrightarrow> 0 \<le> decimal ds"
  using foldl_digits_nonneg [of ds 0] by (simp add: decimal_def)

lemma decimal_pos:
  "\<forall>c\<in>set ds. is_digit c \<Longrightarrow> \<exists>c\<in>set ds. c \<noteq> CHR ''0'' \<Longrightarrow> 0 < decimal ds"
  using foldl_digits_pos [of ds 0] by (simp add: decimal_def)

subsection \<open>Evaluating concrete runs\<close>

lemmas py_int_eval =
  py_int_def strip_def is_space_def py_magnitude_def is_digit_def digit_val_def exceeds_limit_def

lemmas str_int_eval = str_int_def str_nat.simps digit_char_def

lemmas example_eval =
  main_def try_body_def hash_integer_def example_env_def example_hash_int_def

subsection \<open>The function hash\_integer\<close>

text \<open>
  C1. For every integer \<open>n\<close>, \<open>hash_integer(n)\<close> is exactly \<open>hash_int(n)\<close>: the same
  result or the same exception, and the same effect on the state, with nothing added.
\<close>

theorem hash_integer_forwards: "hash_integer E n w = hash_int E n w"
  by (simp add: hash_integer_def)

text \<open>
  C2. Two calls of \<open>hash_integer(n)\<close> give the same result, given that \<open>hash_int\<close> is a
  pure function of its argument: the second call, made in the state that the first one
  left, returns what the first returned, and \<open>hash_integer\<close> depends on its argument
  only. The function keeps no state of its own that could tell the calls apart.
\<close>

theorem hash_integer_deterministic:
  assumes "depends_only_on_argument (hash_int E)"
  shows "fst (hash_integer E n (snd (hash_integer E n w))) = fst (hash_integer E n w) \<and>
         depends_only_on_argument (hash_integer E)"
  using assms by (simp add: depends_only_on_argument_def hash_integer_def)

text \<open>The example primitive counts its calls, and still both calls at 7 return 50.\<close>

theorem hash_integer_deterministic_witness:
  "depends_only_on_argument (hash_int example_env) \<and>
   fst (hash_integer example_env 7 (snd (hash_integer example_env 7 0))) = Inr 50 \<and>
   fst (hash_integer example_env 7 0) = Inr 50"
proof -
  have pure: "depends_only_on_argument (hash_int example_env)"
    by (simp add: depends_only_on_argument_def example_env_def example_hash_int_def)
  show ?thesis
    using pure hash_integer_deterministic [OF pure, of 7 0]
    by (simp add: hash_integer_def example_env_def example_hash_int_def)
qed

subsection \<open>The command line\<close>



text \<open>
  C4. When the argument is there but \<open>int\<close> does not accept it, the run prints
  \<open>Invalid input. Please provide an integer.\<close> and nothing else, ends normally, and
  leaves the state of \<open>hash_int\<close> as it was: the primitive is not called, so there is no
  digest.
\<close>

theorem unparsable_argument_reported:
  assumes "py_int (max_str_digits E) arg = None"
  shows "main E (prog # arg # rest) w =
           (([''Invalid input. Please provide an integer.''], Normal), w)"
  using assms by (rule main_unparsable)

text \<open>The argument \<open>12a\<close> is not an integer.\<close>

theorem unparsable_argument_reported_witness:
  "py_int (max_str_digits example_env) ''12a'' = None \<and>
   main example_env [''hash_integer.py'', ''12a''] 0 =
     (([''Invalid input. Please provide an integer.''], Normal), 0)"
proof -
  have bad: "py_int (max_str_digits example_env) ''12a'' = None"
    by (simp add: example_env_def py_int_eval)
  show ?thesis
    using bad unparsable_argument_reported [OF bad, of "''hash_integer.py''" "[]" 0] by simp
qed

text \<open>
  C5. When \<open>sys.argv\<close> holds the program name only, the run prints
  \<open>Please provide an integer as a command line argument.\<close> and nothing else. It
  converts nothing and hashes nothing: the result is the same for every conversion limit
  and every primitive, whose state is untouched.
\<close>

theorem missing_argument_usage:
  "main E [prog] w =
     (([''Please provide an integer as a command line argument.''], Normal), w)"
  by (simp add: main_def)

text \<open>
  C6. When the argument is an integer \<open>n\<close>, \<open>hash_int\<close> returns a digest \<open>d\<close> for it and
  the f-string formats that digest, the run prints the one line \<open>The hash of n is d.\<close>,
  with \<open>n\<close> and \<open>d\<close> as the f-string formats them, and ends normally. That the argument
  is an integer is not enough: the call or the formatting may still raise.
\<close>

theorem success_sentence:
  assumes "py_int (max_str_digits E) arg = Some n" and "hash_int E n w = (Inr d, w')"
    and "format_digest E d = Inr shown"
  shows "main E (prog # arg # rest) w =
           (([''The hash of '' @ str_int n @ '' is '' @ shown @ ''.''], Normal), w')"
  using assms by (rule main_digest)

text \<open>The example primitive maps 12 to 145.\<close>

theorem success_sentence_witness:
  "py_int (max_str_digits example_env) ''12'' = Some 12 \<and>
   hash_int example_env 12 0 = (Inr 145, 1) \<and>
   format_digest example_env 145 = Inr ''145'' \<and>
   main example_env [''hash_integer.py'', ''12''] 0 = (([''The hash of 12 is 145.''], Normal), 1)"
proof -
  have parse: "py_int (max_str_digits example_env) ''12'' = Some 12"
    by (simp add: example_env_def py_int_eval)
  have hash: "hash_int example_env 12 0 = (Inr 145, 1)"
    by (simp add: example_env_def example_hash_int_def)
  have fmt: "format_digest example_env 145 = Inr ''145''"
    by (simp add: example_env_def str_int_eval)
  have str: "str_int 12 = ''12''"
    by (simp add: str_int_eval)
  show ?thesis
    using parse hash fmt success_sentence [OF parse hash fmt, of "''hash_integer.py''" "[]"]
    by (simp add: str)
qed

text \<open>
  The argument \<open>18446744073709551616\<close> is an integer, \<open>2 ^ 64\<close>, and yet the run of the
  example prints no sentence with a digest: the primitive raises \<open>ValueError\<close> there.
  The argument \<open>-5\<close> is an integer too, and its run prints nothing at all.
\<close>

theorem integer_argument_without_sentence:
  "py_int (max_str_digits example_env) ''18446744073709551616'' = Some (2 ^ 64) \<and>
   main example_env [''hash_integer.py'', ''18446744073709551616''] 0 =
     (([''Invalid input. Please provide an integer.''], Normal), 1) \<and>
   py_int (max_str_digits example_env) ''-5'' = Some (- 5) \<and>
   main example_env [''hash_integer.py'', ''-5''] 0 =
     (([], Uncaught (OtherError ''OverflowError'')), 1)"
  by (simp add: example_eval py_int_eval)

text \<open>
  C7. The script tests \<open>len(sys.argv) > 1\<close> and then reads \<open>sys.argv[1]\<close> alone, so it
  does not refuse further arguments: a command line with more than one argument runs
  exactly as the command line with its first argument alone.
\<close>

theorem later_arguments_ignored:
  "main E (prog # arg # rest) w = main E [prog, arg] w"
  by (simp add: main_def)

text \<open>A command line with the two arguments 5 and 6 is accepted, and 5 is hashed.\<close>

theorem second_argument_accepted:
  "main example_env [''hash_integer.py'', ''5'', ''6''] 0 =
     (([''The hash of 5 is 26.''], Normal), 1)"
  by (simp add: example_eval py_int_eval str_int_eval)

text \<open>
  C8. For every string that is a minus sign and then one or more decimal digits, no more
  of them than the interpreter's conversion limit allows, \<open>int\<close> succeeds with minus the
  value of the digits: never a positive integer, and a negative one as soon as one digit
  is not 0. That integer goes to \<open>hash_int\<close> as it is, and the run is what \<open>hash_int\<close>
  does with it (and, where it returns a digest, what formatting the digest does): the
  script neither rejects the sign nor encodes or offsets the value.
\<close>

theorem negative_literal_forwarded:
  assumes "ds \<noteq> []" and "\<forall>c\<in>set ds. is_digit c"
    and "\<not> exceeds_limit (max_str_digits E) (length ds)"
  shows "py_int (max_str_digits E) (CHR ''-'' # ds) = Some (- decimal ds) \<and>
         - decimal ds \<le> 0 \<and>
         ((\<exists>c\<in>set ds. c \<noteq> CHR ''0'') \<longrightarrow> - decimal ds < 0) \<and>
         main E (prog # (CHR ''-'' # ds) # rest) w =
           (case hash_int E (- decimal ds) w of
              (Inr d, w') \<Rightarrow>
                (case format_digest E d of
                   Inr shown \<Rightarrow>
                     (([''The hash of '' @ str_int (- decimal ds) @ '' is '' @ shown @ ''.''],
                       Normal), w')
                 | Inl ValueError \<Rightarrow>
                     (([''Invalid input. Please provide an integer.''], Normal), w')
                 | Inl (OtherError c) \<Rightarrow> (([], Uncaught (OtherError c)), w'))
            | (Inl ValueError, w') \<Rightarrow>
                (([''Invalid input. Please provide an integer.''], Normal), w')
            | (Inl (OtherError c), w') \<Rightarrow> (([], Uncaught (OtherError c)), w'))"
proof -
  have parse: "py_int (max_str_digits E) (CHR ''-'' # ds) = Some (- decimal ds)"
    using assms by (simp add: py_int_minus_digits)
  have run: "main E (prog # (CHR ''-'' # ds) # rest) w =
           (case hash_int E (- decimal ds) w of
              (Inr d, w') \<Rightarrow>
                (case format_digest E d of
                   Inr shown \<Rightarrow>
                     (([''The hash of '' @ str_int (- decimal ds) @ '' is '' @ shown @ ''.''],
                       Normal), w')
                 | Inl ValueError \<Rightarrow>
                     (([''Invalid input. Please provide an integer.''], Normal), w')
                 | Inl (OtherError c) \<Rightarrow> (([], Uncaught (OtherError c)), w'))
            | (Inl ValueError, w') \<Rightarrow>
                (([''Invalid input. Please provide an integer.''], Normal), w')
            | (Inl (OtherError c), w') \<Rightarrow> (([], Uncaught (OtherError c)), w'))"
    by (simp add: main_def try_body_def hash_integer_def parse
          split: prod.splits sum.splits exn.splits)
  from parse run decimal_nonneg [OF assms(2)] decimal_pos [OF assms(2)] show ?thesis
    by simp
qed

text \<open>The argument \<open>-5\<close> reaches the example primitive, which raises on negative integers.\<close>

theorem negative_literal_forwarded_witness:
  "py_int (max_str_digits example_env) ''-5'' = Some (- 5) \<and>
   main example_env [''hash_integer.py'', ''-5''] 0 =
     (([], Uncaught (OtherError ''OverflowError'')), 1)"
proof -
  have ds: "''5'' \<noteq> []" "\<forall>c\<in>set ''5''. is_digit c"
    "\<not> exceeds_limit (max_str_digits example_env) (length ''5'')"
    by (simp_all add: is_digit_def exceeds_limit_def)
  have val: "decimal ''5'' = 5"
    by (simp add: decimal_def digit_val_def)
  have hash: "hash_int example_env (- 5) 0 = (Inl (OtherError ''OverflowError''), 1)"
    by (simp add: example_env_def example_hash_int_def)
  show ?thesis
    using negative_literal_forwarded [OF ds, of "''hash_integer.py''" "[]" 0]
    by (simp add: val hash)
qed

text \<open>
  Under the default limit of 4300 digits the conversion refuses a minus sign followed by
  4301 digits, and the run reports it as invalid input.
\<close>

theorem long_negative_literal_rejected:
  "py_int 4300 (CHR ''-'' # replicate 4301 (CHR ''1'')) = None \<and>
   main example_env [''hash_integer.py'', CHR ''-'' # replicate 4301 (CHR ''1'')] 0 =
     (([''Invalid input. Please provide an integer.''], Normal), 0)"
proof -
  have "\<forall>c\<in>set (replicate 4301 (CHR ''1'')). is_digit c"
    by (simp add: is_digit_def)
  moreover have "replicate 4301 (CHR ''1'') \<noteq> []"
    by simp
  ultimately have bad: "py_int 4300 (CHR ''-'' # replicate 4301 (CHR ''1'')) = None"
    by (simp add: py_int_minus_digits exceeds_limit_def)
  then have "py_int (max_str_digits example_env) (CHR ''-'' # replicate 4301 (CHR ''1'')) = None"
    by (simp add: example_env_def)
  from bad main_unparsable [OF this] show ?thesis by simp
qed

text \<open>
  C9. Two arguments that \<open>int\<close> converts to the same integer, such as \<open>5\<close> and \<open>05\<close>,
  give the same run from the same state: the same line printed, with the same digest, the
  same end and the same final state.
\<close>

theorem same_integer_same_run:
  assumes "py_int (max_str_digits E) s1 = Some n" and "py_int (max_str_digits E) s2 = Some n"
  shows "main E (prog1 # s1 # rest1) w = main E (prog2 # s2 # rest2) w"
  using assms by (simp add: main_def try_body_def)

text \<open>The arguments \<open>5\<close> and \<open>05\<close> both print the hash of 5.\<close>

theorem same_integer_same_run_witness:
  "py_int (max_str_digits example_env) ''5'' = Some 5 \<and>
   py_int (max_str_digits example_env) ''05'' = Some 5 \<and>
   main example_env [''hash_integer.py'', ''05''] 0 = (([''The hash of 5 is 26.''], Normal), 1) \<and>
   main example_env [''hash_integer.py'', ''5''] 0 = main example_env [''hash_integer.py'', ''05''] 0"
proof -
  have a: "py_int (max_str_digits example_env) ''5'' = Some 5"
    by (simp add: example_env_def py_int_eval)
  have b: "py_int (max_str_digits example_env) ''05'' = Some 5"
    by (simp add: example_env_def py_int_eval)
  have run: "main example_env [''hash_integer.py'', ''05''] 0 =
               (([''The hash of 5 is 26.''], Normal), 1)"
    by (simp add: example_eval py_int_eval str_int_eval)
  show ?thesis
    using a b run
      same_integer_same_run [OF a b, of "''hash_integer.py''" "[]" 0 "''hash_integer.py''" "[]"]
    by simp
qed

text \<open>
  C10. The \<open>try\<close> statement covers the conversion and the call alike: a \<open>ValueError\<close>
  that \<open>hash_int\<close> raises on an integer argument is caught and answered with
  \<open>Invalid input. Please provide an integer.\<close>, and what the run prints and how it
  ends are what they are for an argument that is not an integer at all.
\<close>

theorem value_error_of_hash_int_reported_as_parse_error:
  assumes "py_int (max_str_digits E) arg = Some n" and "hash_int E n w = (Inl ValueError, w')"
    and "py_int (max_str_digits E) bad = None"
  shows "main E (prog # arg # rest) w =
           (([''Invalid input. Please provide an integer.''], Normal), w') \<and>
         fst (main E (prog' # bad # rest') w'') = fst (main E (prog # arg # rest) w)"
  using assms by (simp add: main_value_error main_unparsable)

text \<open>
  The example primitive raises \<open>ValueError\<close> at \<open>2 ^ 64\<close>; the output is that of the
  argument \<open>five\<close>.
\<close>

theorem value_error_of_hash_int_reported_as_parse_error_witness:
  "py_int (max_str_digits example_env) ''18446744073709551616'' = Some (2 ^ 64) \<and>
   hash_int example_env (2 ^ 64) 0 = (Inl ValueError, 1) \<and>
   py_int (max_str_digits example_env) ''five'' = None \<and>
   main example_env [''hash_integer.py'', ''18446744073709551616''] 0 =
     (([''Invalid input. Please provide an integer.''], Normal), 1) \<and>
   fst (main example_env [''hash_integer.py'', ''five''] 0) =
     fst (main example_env [''hash_integer.py'', ''18446744073709551616''] 0)"
proof -
  have parse: "py_int (max_str_digits example_env) ''18446744073709551616'' = Some (2 ^ 64)"
    by (simp add: example_env_def py_int_eval)
  have hash: "hash_int example_env (2 ^ 64) 0 = (Inl ValueError, 1)"
    by (simp add: example_env_def example_hash_int_def)
  have bad: "py_int (max_str_digits example_env) ''five'' = None"
    by (simp add: example_env_def py_int_eval)
  show ?thesis
    using parse hash bad
      value_error_of_hash_int_reported_as_parse_error
        [OF parse hash bad, of "''hash_integer.py''" "[]" "''hash_integer.py''" "[]" 0]
    by simp
qed

end
